theory Spec2Isabelle
  imports Complex_Main
begin

section \<open>Three-body simulator: the physics engine and its fixed-timestep driver\<close>

text \<open>
  The development embeds \<^verbatim>\<open>Physics/physics.cpp\<close>, \<^verbatim>\<open>Physics/physics.h\<close>, \<^verbatim>\<open>body.h\<close> and the
  stepping loop of \<^verbatim>\<open>App::run\<close> (\<^verbatim>\<open>application.h\<close>).

  Numbers: the \<^verbatim>\<open>float\<close> and \<^verbatim>\<open>double\<close> values of the bodies and of the engine are modelled
  by exact reals. Rounding, overflow to infinity and NaN are outside this part of the model.
  Where the source divides, HOL's \<open>x / 0 = 0\<close> is not what the machine computes (it yields
  an infinity or NaN there), so a statement whose truth depends on the value of a quotient
  assumes the divisor non-zero. The \<^verbatim>\<open>float accumulator\<close> of \<^verbatim>\<open>App\<close> is different: the number
  of passes of the stepping loop depends on how its updates round, so it is modelled with
  IEEE 754 binary32 and binary64 rounding (to nearest, ties to even).
\<close>

subsection \<open>glm::vec3\<close>

text \<open>The three components are \<^verbatim>\<open>x\<close>, \<^verbatim>\<open>y\<close>, \<^verbatim>\<open>z\<close> in glm; the selectors carry a prefix so
  that one-letter variables stay free.\<close>

datatype vec3 = Vec3 (vec_x: real) (vec_y: real) (vec_z: real)

instantiation vec3 :: ab_group_add
begin

definition zero_vec3 :: vec3 where
  "zero_vec3 = Vec3 0 0 0"

definition plus_vec3 :: "vec3 \<Rightarrow> vec3 \<Rightarrow> vec3" where
  "plus_vec3 a b = Vec3 (vec_x a + vec_x b) (vec_y a + vec_y b) (vec_z a + vec_z b)"

definition minus_vec3 :: "vec3 \<Rightarrow> vec3 \<Rightarrow> vec3" where
  "minus_vec3 a b = Vec3 (vec_x a - vec_x b) (vec_y a - vec_y b) (vec_z a - vec_z b)"

definition uminus_vec3 :: "vec3 \<Rightarrow> vec3" where
  "uminus_vec3 a = Vec3 (- vec_x a) (- vec_y a) (- vec_z a)"

instance
  by standard (simp_all add: zero_vec3_def plus_vec3_def minus_vec3_def uminus_vec3_def)

end

text \<open>\<^verbatim>\<open>float * vec3\<close> and \<^verbatim>\<open>vec3 * float\<close> (the same product over the reals).\<close>

definition smul :: "real \<Rightarrow> vec3 \<Rightarrow> vec3" where
  "smul k v = Vec3 (k * vec_x v) (k * vec_y v) (k * vec_z v)"

text \<open>\<^verbatim>\<open>vec3 / float\<close>.\<close>

definition vdiv :: "vec3 \<Rightarrow> real \<Rightarrow> vec3" where
  "vdiv v k = Vec3 (vec_x v / k) (vec_y v / k) (vec_z v / k)"

text \<open>Assignment to the \<^verbatim>\<open>.y\<close> component.\<close>

definition set_y :: "vec3 \<Rightarrow> real \<Rightarrow> vec3" where
  "set_y v k = Vec3 (vec_x v) k (vec_z v)"

definition dot :: "vec3 \<Rightarrow> vec3 \<Rightarrow> real" where
  "dot a b = vec_x a * vec_x b + vec_y a * vec_y b + vec_z a * vec_z b"

text \<open>\<^verbatim>\<open>glm::length\<close> is \<^verbatim>\<open>sqrt(dot(v, v))\<close>; \<^verbatim>\<open>glm::normalize\<close> is
  \<^verbatim>\<open>v * inversesqrt(dot(v, v))\<close>. On the zero vector the machine result of normalize is NaN;
  the model gives the zero vector there.\<close>

definition length_vec3 :: "vec3 \<Rightarrow> real" where
  "length_vec3 v = sqrt (dot v v)"

definition normalize :: "vec3 \<Rightarrow> vec3" where
  "normalize v = smul (1 / sqrt (dot v v)) v"

text \<open>\<^verbatim>\<open>glm::all(glm::epsilonEqual(a, b, vec3(eps)))\<close>: every component differs by less than
  \<open>eps\<close>.\<close>

definition epsilonEqual_all :: "vec3 \<Rightarrow> vec3 \<Rightarrow> real \<Rightarrow> bool" where
  "epsilonEqual_all a b eps \<longleftrightarrow>
     \<bar>vec_x a - vec_x b\<bar> < eps \<and> \<bar>vec_y a - vec_y b\<bar> < eps \<and> \<bar>vec_z a - vec_z b\<bar> < eps"

subsection \<open>Body (body.h) and the parts of Sphere, Sphere3D and Mesh that physics reads\<close>

record Sphere3D =
  Radius :: real

record Mesh =
  source :: bool

record Sphere =
  geometry :: Sphere3D
  mesh :: Mesh

record Body =
  sphere :: Sphere
  Mass :: real
  Position :: vec3
  Velocity :: vec3
  Acceleration :: vec3
  Force :: vec3
  vForceAccumulator :: vec3
  tracePoints :: "vec3 list"

definition getRadius :: "Sphere3D \<Rightarrow> real" where
  "getRadius g = Radius g"

text \<open>The struct's default member initialisers: \<^verbatim>\<open>Sphere3D()\<close> sets the radius to \<open>-1\<close>,
  \<^verbatim>\<open>Mesh::source\<close> is false, \<^verbatim>\<open>Mass = 1.0f\<close>, the vectors are zero. \<^verbatim>\<open>Position\<close> has no
  initialiser, so it is a parameter here.\<close>

definition Body_default :: "vec3 \<Rightarrow> Body" where
  "Body_default pos =
     \<lparr>sphere = \<lparr>geometry = \<lparr>Radius = - 1\<rparr>, mesh = \<lparr>source = False\<rparr>\<rparr>,
      Mass = 1, Position = pos, Velocity = 0, Acceleration = 0, Force = 0,
      vForceAccumulator = 0, tracePoints = []\<rparr>"

text \<open>\<^verbatim>\<open>Sphere3D::generateSphere\<close>, as far as the radius goes: a negative radius is left alone
  (nothing is generated), a radius below \<^verbatim>\<open>0.0000001f\<close> is raised to it.\<close>

definition generateSphere :: "Sphere3D \<Rightarrow> Sphere3D" where
  "generateSphere g =
     (if Radius g < 0 then g
      else if Radius g < 1 / 10 ^ 7 then g\<lparr>Radius := 1 / 10 ^ 7\<rparr>
      else g)"

text \<open>\<^verbatim>\<open>Sphere3D::setRadius\<close>: \<^verbatim>\<open>Radius = radius; generateSphere();\<close>\<close>

definition Sphere3D_setRadius :: "real \<Rightarrow> Sphere3D \<Rightarrow> Sphere3D" where
  "Sphere3D_setRadius r g = generateSphere (g\<lparr>Radius := r\<rparr>)"

text \<open>\<^verbatim>\<open>Body::setRadius\<close>, through \<^verbatim>\<open>Sphere::setRadius\<close> (whose \<^verbatim>\<open>mesh.remake = true\<close> is
  a rendering flag).\<close>

definition setRadius :: "real \<Rightarrow> Body \<Rightarrow> Body" where
  "setRadius r b =
     b\<lparr>sphere := (sphere b)\<lparr>geometry := Sphere3D_setRadius r (geometry (sphere b))\<rparr>\<rparr>"

definition setSource :: "bool \<Rightarrow> Body \<Rightarrow> Body" where
  "setSource s b = b\<lparr>sphere := (sphere b)\<lparr>mesh := (mesh (sphere b))\<lparr>source := s\<rparr>\<rparr>\<rparr>"

subsection \<open>Constants of physics.h\<close>

definition GRAV_CONST :: real where
  "GRAV_CONST = 667430 / 10 ^ 16"

definition GRAV_FORCE :: vec3 where
  "GRAV_FORCE = Vec3 0 0 0"

definition EPSILON :: real where
  "EPSILON = 1 / 1000"

subsection \<open>The engine object\<close>

text \<open>\<^verbatim>\<open>Speed\<close> and \<^verbatim>\<open>endSim\<close> are the private members of \<^verbatim>\<open>class Physics\<close>. \<^verbatim>\<open>dt\<close> is the
  process-wide \<^verbatim>\<open>inline float dt\<close> of physics.h, written by every constructor; it is kept
  with the engine here.\<close>

record Physics =
  Speed :: real
  endSim :: bool
  dt :: real

definition Physics_default :: Physics where
  "Physics_default = \<lparr>Speed = 3, endSim = False, dt = 1 / 60\<rparr>"

definition Physics_speed :: "real \<Rightarrow> Physics" where
  "Physics_speed speed = \<lparr>Speed = speed, endSim = False, dt = 1 / 60\<rparr>"

definition Physics_timeStep_speed :: "real \<Rightarrow> real \<Rightarrow> Physics" where
  "Physics_timeStep_speed timeStep speed = \<lparr>Speed = speed, endSim = False, dt = timeStep\<rparr>"

definition shouldClose :: "Physics \<Rightarrow> bool" where
  "shouldClose p = endSim p"

text \<open>\<^verbatim>\<open>wait\<close> and \<^verbatim>\<open>cleanup\<close> have empty bodies; they return the engine as it was.\<close>

definition wait :: "Physics \<Rightarrow> real \<Rightarrow> Physics" where
  "wait p sec = p"

definition cleanup :: "Physics \<Rightarrow> Physics" where
  "cleanup p = p"

definition push :: "Body \<Rightarrow> vec3 \<Rightarrow> Body" where
  "push b impulse = b\<lparr>Velocity := Velocity b + impulse\<rparr>"

subsection \<open>The private helpers of Physics\<close>

definition isZero :: "vec3 \<Rightarrow> bool" where
  "isZero v = (if v = Vec3 0 0 0 then True else epsilonEqual_all v (Vec3 0 0 0) EPSILON)"

text \<open>\<^verbatim>\<open>updateState\<close>: the position update reads \<^verbatim>\<open>dt\<close> only; \<^verbatim>\<open>Speed\<close> is not read.\<close>

definition updateState :: "Physics \<Rightarrow> Body \<Rightarrow> Body" where
  "updateState p body =
     (let b1 = body\<lparr>Acceleration := vdiv (Force body) (Mass body)\<rparr>;
          b2 = b1\<lparr>Velocity := Velocity b1 + smul (dt p) (Acceleration b1)\<rparr>
      in b2\<lparr>Position := Position b2 + smul (dt p) (Velocity b2)\<rparr>)"

definition calculateDistanceSquare :: "Body \<Rightarrow> Body \<Rightarrow> real" where
  "calculateDistanceSquare sphereOne sphereTwo =
     (let vDistance = Position sphereTwo - Position sphereOne in dot vDistance vDistance)"

definition minDistSq :: real where
  "minDistSq = 1"

definition calculateGravForce :: "Body \<Rightarrow> Body \<Rightarrow> Body \<times> Body" where
  "calculateGravForce sphereOne sphereTwo =
     (let fDistanceSq = calculateDistanceSquare sphereOne sphereTwo in
      if fDistanceSq < minDistSq + EPSILON then (sphereOne, sphereTwo)
      else
        let vDirOne = normalize (Position sphereTwo - Position sphereOne);
            vDirTwo = - vDirOne;
            gravForce = GRAV_CONST * ((Mass sphereOne * Mass sphereTwo) / fDistanceSq)
        in (sphereOne\<lparr>vForceAccumulator := vForceAccumulator sphereOne + smul gravForce vDirOne\<rparr>,
            sphereTwo\<lparr>vForceAccumulator := vForceAccumulator sphereTwo + smul gravForce vDirTwo\<rparr>))"

text \<open>\<^verbatim>\<open>calculateForce\<close>: the local \<^verbatim>\<open>vVelocityNormal\<close> is computed and never used.\<close>

definition calculateForce :: "Body \<Rightarrow> Body" where
  "calculateForce body =
     (let vGravForce = smul (Mass body) GRAV_FORCE;
          acc = vForceAccumulator body
      in body\<lparr>Force := vGravForce + acc, vForceAccumulator := Vec3 0 0 0\<rparr>)"

definition surfaceY :: real where
  "surfaceY = - 2"

definition onSurface :: "Body \<Rightarrow> bool" where
  "onSurface body =
     (let rad = getRadius (geometry (sphere body));
          y = vec_y (Position body)
      in y - rad \<le> surfaceY + EPSILON)"

definition processSurfaceCollision :: "Body \<Rightarrow> Body" where
  "processSurfaceCollision body =
     (let b1 = body\<lparr>Velocity := set_y (Velocity body) (vec_y (Velocity body) * (- (8 / 10)))\<rparr>;
          rad = getRadius (geometry (sphere b1));
          b2 = b1\<lparr>Position := set_y (Position b1) (surfaceY + rad)\<rparr>
      in if \<bar>vec_y (Velocity b2)\<bar> < 1 / 10 then b2\<lparr>Velocity := set_y (Velocity b2) 0\<rparr> else b2)"

definition areColliding :: "Body \<Rightarrow> Body \<Rightarrow> bool" where
  "areColliding sphereOne sphereTwo =
     (let d = Position sphereOne - Position sphereTwo;
          sqDistance = dot d d;
          aRad = getRadius (geometry (sphere sphereOne));
          bRad = getRadius (geometry (sphere sphereTwo));
          tRad = aRad + bRad;
          tRadSq = tRad * tRad
      in sqDistance \<le> tRadSq + EPSILON)"

definition processCollision :: "Body \<Rightarrow> Body \<Rightarrow> Body \<times> Body" where
  "processCollision sphereOne sphereTwo =
     (let collisionNormal = normalize (Position sphereTwo - Position sphereOne);
          distance = length_vec3 (Position sphereTwo - Position sphereOne);
          radiusSum = getRadius (geometry (sphere sphereOne)) + getRadius (geometry (sphere sphereTwo));
          overlap = radiusSum - distance;
          correction = smul (overlap / 2) collisionNormal;
          posOne = (if overlap > 0 then Position sphereOne - correction else Position sphereOne);
          posTwo = (if overlap > 0 then Position sphereTwo + correction else Position sphereTwo);
          velOne = vdiv (smul (Mass sphereOne - Mass sphereTwo) (Velocity sphereOne)
                         + smul (Mass sphereTwo + Mass sphereTwo) (Velocity sphereTwo))
                        (Mass sphereOne + Mass sphereTwo);
          velTwo = vdiv (smul (Mass sphereOne + Mass sphereTwo) (Velocity sphereOne)
                         + smul (Mass sphereTwo - Mass sphereOne) (Velocity sphereTwo))
                        (Mass sphereOne + Mass sphereTwo)
      in (sphereOne\<lparr>Position := posOne, Velocity := velOne\<rparr>,
          sphereTwo\<lparr>Position := posTwo, Velocity := velTwo\<rparr>))"

subsection \<open>Physics::processFrame\<close>

text \<open>
  \<^verbatim>\<open>bodies\<close> is a \<^verbatim>\<open>std::vector<Body *>\<close>. The pointers are taken to be pairwise distinct (as
  the four bodies registered by \<^verbatim>\<open>App::setupProgram\<close> are), so the pointees are a list of
  \<open>Body\<close> values and a write through \<^verbatim>\<open>bodies[i]\<close> is a list update at \<open>i\<close>. Both inner
  loops run \<open>j\<close> over \<open>i + 1 ..< bodies.size()\<close>; no statement changes the size.

  The statements of the outer loop's body, in source order.
\<close>

text \<open>\<^verbatim>\<open>body->Force = glm::vec3(0);\<close>\<close>

definition clearForce :: "nat \<Rightarrow> Body list \<Rightarrow> Body list" where
  "clearForce i bs = bs[i := (bs ! i)\<lparr>Force := Vec3 0 0 0\<rparr>]"

text \<open>One iteration of the gravity loop: skip a light source, otherwise
  \<^verbatim>\<open>calculateGravForce(*body, *sBody)\<close>.\<close>

definition gravPair :: "nat \<Rightarrow> nat \<Rightarrow> Body list \<Rightarrow> Body list" where
  "gravPair i j bs =
     (if source (mesh (sphere (bs ! j))) then bs
      else case calculateGravForce (bs ! i) (bs ! j) of (one, two) \<Rightarrow> bs[i := one, j := two])"

definition gravLoop :: "nat \<Rightarrow> Body list \<Rightarrow> Body list" where
  "gravLoop i bs = fold (gravPair i) [Suc i..<length bs] bs"

text \<open>\<^verbatim>\<open>calculateForce(*body); updateState(*body);\<close>\<close>

definition integrate :: "Physics \<Rightarrow> nat \<Rightarrow> Body list \<Rightarrow> Body list" where
  "integrate p i bs = bs[i := updateState p (calculateForce (bs ! i))]"

text \<open>\<^verbatim>\<open>if (onSurface(*body)) processSurfaceCollision(*body);\<close>\<close>

definition surfaceStep :: "nat \<Rightarrow> Body list \<Rightarrow> Body list" where
  "surfaceStep i bs = (if onSurface (bs ! i) then bs[i := processSurfaceCollision (bs ! i)] else bs)"

text \<open>One iteration of the collision loop. The call is
  \<^verbatim>\<open>processCollision(*colBody, *body)\<close>: the later body \<open>j\<close> is \<^verbatim>\<open>sphereOne\<close>.\<close>

definition collidePair :: "nat \<Rightarrow> nat \<Rightarrow> Body list \<Rightarrow> Body list" where
  "collidePair i j bs =
     (if source (mesh (sphere (bs ! j))) then bs
      else if areColliding (bs ! j) (bs ! i)
              \<and> \<not> (isZero (Velocity (bs ! i)) \<and> isZero (Velocity (bs ! j)))
      then case processCollision (bs ! j) (bs ! i) of (one, two) \<Rightarrow> bs[j := one, i := two]
      else bs)"

definition collisionLoop :: "nat \<Rightarrow> Body list \<Rightarrow> Body list" where
  "collisionLoop i bs = fold (collidePair i) [Suc i..<length bs] bs"

text \<open>The velocity decay, with the source's \<^verbatim>\<open>vLambda = 0.0f\<close>.\<close>

definition vLambda :: real where
  "vLambda = 0"

definition decay :: "Physics \<Rightarrow> nat \<Rightarrow> Body list \<Rightarrow> Body list" where
  "decay p i bs =
     (if \<not> isZero (Velocity (bs ! i))
      then (let vDecayFactor = exp (- vLambda * dt p)
            in bs[i := (bs ! i)\<lparr>Velocity := smul vDecayFactor (Velocity (bs ! i))\<rparr>])
      else bs)"

definition processBody :: "Physics \<Rightarrow> nat \<Rightarrow> Body list \<Rightarrow> Body list" where
  "processBody p i bs =
     (let bs1 = clearForce i bs in
      if source (mesh (sphere (bs1 ! i))) then bs1
      else decay p i (collisionLoop i (surfaceStep i (integrate p i (gravLoop i bs1)))))"

definition processFrame :: "Physics \<Rightarrow> Body list \<Rightarrow> Body list" where
  "processFrame p bs = fold (processBody p) [0..<length bs] bs"

subsection \<open>Binary floating point, for the accumulator\<close>

text \<open>
  \<^verbatim>\<open>App::accumulator\<close> and \<^verbatim>\<open>dt\<close> are \<^verbatim>\<open>float\<close> (binary32: 24 significant bits, least normal
  exponent \<open>-126\<close>), the frame time is a \<^verbatim>\<open>double\<close> (binary64: 53 bits, \<open>-1022\<close>). A result is
  rounded to the nearest representable value, ties to the even significand. \<open>rnd p emin\<close> is
  that rounding with an unbounded exponent above; below \<open>2 ^ emin\<close> the spacing stays that of
  the subnormal numbers.
\<close>

definition pow2 :: "int \<Rightarrow> real" where
  "pow2 k = (if 0 \<le> k then 2 ^ nat k else 1 / 2 ^ nat (- k))"

definition roundEven :: "real \<Rightarrow> int" where
  "roundEven y =
     (let f = \<lfloor>y\<rfloor>; r = y - of_int f in
      if r < 1 / 2 then f else if 1 / 2 < r then f + 1 else if even f then f else f + 1)"

definition rnd :: "nat \<Rightarrow> int \<Rightarrow> real \<Rightarrow> real" where
  "rnd p emin x =
     (if x = 0 then 0
      else let e = max \<lfloor>log 2 \<bar>x\<bar>\<rfloor> emin;
               q = pow2 (e - int p + 1)
           in of_int (roundEven (x / q)) * q)"

definition rnd32 :: "real \<Rightarrow> real" where
  "rnd32 x = rnd 24 (- 126) x"

definition rnd64 :: "real \<Rightarrow> real" where
  "rnd64 x = rnd 53 (- 1022) x"

text \<open>The values a \<^verbatim>\<open>float\<close> accumulator takes. A rounded result of magnitude \<open>2\<^sup>1\<^sup>2\<^sup>8\<close> or more
  is an infinity. NaN is left out: the frame times and \<^verbatim>\<open>dt\<close> are finite, so no sum or
  difference of the loop is of the form \<open>\<infinity> - \<infinity>\<close>. The sign of a zero is not kept: no
  comparison and no sum can tell the two zeros apart.\<close>

datatype float32 = Finite real | PosInf | NegInf

definition to32 :: "real \<Rightarrow> float32" where
  "to32 x =
     (let y = rnd32 x in
      if pow2 128 \<le> y then PosInf else if y \<le> - pow2 128 then NegInf else Finite y)"

text \<open>\<^verbatim>\<open>accumulator += frameTime\<close> with a \<^verbatim>\<open>double frameTime\<close>: the sum is taken in binary64 and
  converted back to binary32.\<close>

fun float_add_double :: "float32 \<Rightarrow> real \<Rightarrow> float32" where
  "float_add_double (Finite x) d = to32 (rnd64 (x + d))"
| "float_add_double PosInf d = PosInf"
| "float_add_double NegInf d = NegInf"

text \<open>\<^verbatim>\<open>accumulator -= dt\<close> and \<^verbatim>\<open>accumulator >= dt\<close>, both operands \<^verbatim>\<open>float\<close>; the difference
  is rounded once, to binary32 (each operation is evaluated in the precision of its type).\<close>

fun float_sub :: "float32 \<Rightarrow> real \<Rightarrow> float32" where
  "float_sub (Finite x) h = to32 (x - h)"
| "float_sub PosInf h = PosInf"
| "float_sub NegInf h = NegInf"

fun float_ge :: "float32 \<Rightarrow> real \<Rightarrow> bool" where
  "float_ge (Finite x) h \<longleftrightarrow> h \<le> x"
| "float_ge PosInf h \<longleftrightarrow> True"
| "float_ge NegInf h \<longleftrightarrow> False"

subsection \<open>The loop of App::run\<close>

text \<open>
  The fields of \<^verbatim>\<open>class App\<close> that the loop reads or writes. \<^verbatim>\<open>ball_one\<close>, \<^verbatim>\<open>ball_two\<close> and
  \<^verbatim>\<open>ball_three\<close> are the bodies \<^verbatim>\<open>setupProgram\<close> registers first, so they are the entries 0, 1
  and 2 of \<open>bodies\<close>. \<^verbatim>\<open>timeCount\<close> is an \<^verbatim>\<open>unsigned int\<close>: a natural number below \<open>2\<^sup>3\<^sup>2\<close>, with the
  wrap-around written out. \<open>physicsSteps\<close> is not a field of the source: it is a ghost counter
  of the calls of \<^verbatim>\<open>processFrame\<close>, there so that the number of executed steps can be stated.
\<close>

record App =
  pEngine :: Physics
  bodies :: "Body list"
  accumulator :: float32
  timeCount :: nat
  physicsSteps :: nat

text \<open>\<^verbatim>\<open>while (accumulator >= dt) { pEngine.processFrame(bodies); accumulator -= dt; }\<close>
  The loop need not end (\<open>dt \<le> 0\<close>, an infinite accumulator, or an accumulator so large
  that subtracting \<open>dt\<close> rounds back to it); not returning is \<open>None\<close>.\<close>

partial_function (option) physicsLoop :: "App \<Rightarrow> App option" where
  "physicsLoop a =
     (if float_ge (accumulator a) (dt (pEngine a))
      then physicsLoop (a\<lparr>bodies := processFrame (pEngine a) (bodies a),
                          accumulator := float_sub (accumulator a) (dt (pEngine a)),
                          physicsSteps := Suc (physicsSteps a)\<rparr>)
      else Some a)"

text \<open>The demo impulses: \<^verbatim>\<open>Physics::push\<close> on \<^verbatim>\<open>ball_one\<close>, \<^verbatim>\<open>ball_two\<close>, \<^verbatim>\<open>ball_three\<close>, with
  \<^verbatim>\<open>multiplier = 2.0f\<close>.\<close>

definition multiplier :: real where
  "multiplier = 2"

definition pushAt :: "nat \<Rightarrow> vec3 \<Rightarrow> Body list \<Rightarrow> Body list" where
  "pushAt i impulse bs = (if i < length bs then bs[i := push (bs ! i) impulse] else bs)"

definition demoImpulses :: "Body list \<Rightarrow> Body list" where
  "demoImpulses bs =
     pushAt 2 (Vec3 (multiplier * (7071 / 10000)) (multiplier * (7071 / 10000)) 0)
       (pushAt 1 (Vec3 (multiplier * - (7071 / 10000)) (multiplier * - (7071 / 10000)) 0)
          (pushAt 0 (Vec3 (multiplier * 1) (multiplier * - (7071 / 10000)) 0) bs))"

text \<open>The body of \<^verbatim>\<open>if (timeCount > 120) { ... }\<close>, with the value \<^verbatim>\<open>rEngine.getFrameTime()\<close>
  returns as the argument: the accumulator takes the frame time, frame 363 pushes the three
  balls, then the stepping loop runs. During the first 121 frames nothing of this
  happens.\<close>

definition advance :: "real \<Rightarrow> App \<Rightarrow> App option" where
  "advance frameTime a =
     (if timeCount a > 120
      then let a1 = a\<lparr>accumulator := float_add_double (accumulator a) frameTime\<rparr>;
               a2 = (if timeCount a1 = 363 then a1\<lparr>bodies := demoImpulses (bodies a1)\<rparr> else a1)
           in physicsLoop a2
      else Some a)"

text \<open>What \<^verbatim>\<open>Renderer::RenderFrame\<close> writes to the bodies: each body's position is appended
  to its \<^verbatim>\<open>tracePoints\<close>.\<close>

definition RenderFrame :: "Body list \<Rightarrow> Body list" where
  "RenderFrame bs = map (\<lambda>body. body\<lparr>tracePoints := tracePoints body @ [Position body]\<rparr>) bs"

text \<open>One pass of the outer \<^verbatim>\<open>while\<close> loop: the timing block, \<^verbatim>\<open>timeCount++\<close>, the rendering
  call. How many passes there are is decided by the window (\<^verbatim>\<open>rEngine.shouldClose()\<close>), so a
  run is given by the list of the frame times of its passes.\<close>

definition runFrame :: "real \<Rightarrow> App \<Rightarrow> App option" where
  "runFrame frameTime a =
     (case advance frameTime a of
        None \<Rightarrow> None
      | Some a' \<Rightarrow> Some (a'\<lparr>timeCount := (timeCount a' + 1) mod 2 ^ 32,
                            bodies := RenderFrame (bodies a')\<rparr>))"

fun runFrames :: "real list \<Rightarrow> App \<Rightarrow> App option" where
  "runFrames [] a = Some a"
| "runFrames (d # ds) a = (case runFrame d a of None \<Rightarrow> None | Some a' \<Rightarrow> runFrames ds a')"

subsection \<open>Sequences of engine operations\<close>

text \<open>The three constructors of \<^verbatim>\<open>Physics\<close> and the public operations, applied to an engine
  together with the bodies it is given.\<close>

datatype Physics_ctor = Ctor | CtorSpeed real | CtorTimeStepSpeed real real

fun construct :: "Physics_ctor \<Rightarrow> Physics" where
  "construct Ctor = Physics_default"
| "construct (CtorSpeed speed) = Physics_speed speed"
| "construct (CtorTimeStepSpeed timeStep speed) = Physics_timeStep_speed timeStep speed"

datatype Physics_op = ProcessFrame | Push nat vec3 | Wait real | Cleanup

fun applyOp :: "Physics_op \<Rightarrow> Physics \<times> Body list \<Rightarrow> Physics \<times> Body list" where
  "applyOp ProcessFrame (p, bs) = (p, processFrame p bs)"
| "applyOp (Push i impulse) (p, bs) = (p, if i < length bs then bs[i := push (bs ! i) impulse] else bs)"
| "applyOp (Wait sec) (p, bs) = (wait p sec, bs)"
| "applyOp Cleanup (p, bs) = (cleanup p, bs)"

definition applyOps :: "Physics_op list \<Rightarrow> Physics \<times> Body list \<Rightarrow> Physics \<times> Body list" where
  "applyOps ops w = fold applyOp ops w"

subsection \<open>Predicates and quantities the statements are about\<close>

text \<open>The force one call of \<^verbatim>\<open>calculateGravForce\<close> adds to \<^verbatim>\<open>sphereOne\<close>'s accumulator (and
  subtracts from \<^verbatim>\<open>sphereTwo\<close>'s): zero when the pair is skipped.\<close>

definition gravContribution :: "Body \<Rightarrow> Body \<Rightarrow> vec3" where
  "gravContribution sphereOne sphereTwo =
     (if calculateDistanceSquare sphereOne sphereTwo < minDistSq + EPSILON then 0
      else smul (GRAV_CONST * ((Mass sphereOne * Mass sphereTwo)
                               / calculateDistanceSquare sphereOne sphereTwo))
                (normalize (Position sphereTwo - Position sphereOne)))"

text \<open>The fields of a body that no statement of physics.cpp assigns, and the two force
  fields.\<close>

definition fixedPart :: "Body \<Rightarrow> Sphere \<times> real \<times> vec3 list" where
  "fixedPart b = (sphere b, Mass b, tracePoints b)"

definition forceState :: "Body \<Rightarrow> vec3 \<times> vec3" where
  "forceState b = (Force b, vForceAccumulator b)"

definition momentum :: "Body \<Rightarrow> vec3" where
  "momentum b = smul (Mass b) (Velocity b)"

definition totalMomentum :: "Body list \<Rightarrow> vec3" where
  "totalMomentum bs = sum_list (map momentum bs)"

text \<open>Body \<open>i\<close> takes no collision branch in its turn of the outer loop: after its
  integration it is not on the surface, and no later body passes the test that guards
  \<^verbatim>\<open>processCollision\<close>. (While no branch is taken the tests all read the state right after
  the integration.)\<close>

definition noCollisionAt :: "Physics \<Rightarrow> nat \<Rightarrow> Body list \<Rightarrow> bool" where
  "noCollisionAt p i bs =
     (let bs' = integrate p i (gravLoop i (clearForce i bs)) in
      \<not> onSurface (bs' ! i)
      \<and> list_all (\<lambda>j. source (mesh (sphere (bs' ! j)))
                      \<or> \<not> (areColliding (bs' ! j) (bs' ! i)
                            \<and> \<not> (isZero (Velocity (bs' ! i)) \<and> isZero (Velocity (bs' ! j)))))
                 [Suc i..<length bs'])"

text \<open>No collision branch is taken in a whole step: body \<open>i\<close> is looked at in the state the
  outer loop has reached when its turn comes.\<close>

definition noCollisionInFrame :: "Physics \<Rightarrow> Body list \<Rightarrow> bool" where
  "noCollisionInFrame p bs =
     list_all (\<lambda>i. source (mesh (sphere (bs ! i)))
                   \<or> noCollisionAt p i (fold (processBody p) [0..<i] bs))
              [0..<length bs]"

text \<open>A body after \<^verbatim>\<open>body->Force = glm::vec3(0)\<close>, a gravity loop that added \<open>w\<close> to its
  accumulator, \<^verbatim>\<open>calculateForce\<close> and \<^verbatim>\<open>updateState\<close>.\<close>

definition pulled :: "Physics \<Rightarrow> Body \<Rightarrow> vec3 \<Rightarrow> Body" where
  "pulled p b w =
     updateState p (calculateForce (b\<lparr>Force := Vec3 0 0 0,
                                     vForceAccumulator := vForceAccumulator b + w\<rparr>))"


text \<open>\<open>x\<close> is a multiple of \<open>2\<^sup>k\<close>; and a multiple whose multiplier has fewer than 24 bits, which
  for \<open>-149 \<le> k \<le> 104\<close> makes \<open>x\<close> a binary32 number.\<close>

definition onGrid :: "int \<Rightarrow> real \<Rightarrow> bool" where
  "onGrid k x \<longleftrightarrow> of_int \<lfloor>x / pow2 k\<rfloor> = x / pow2 k"



text \<open>The state after one pass of the stepping loop that left \<open>y\<close> in the accumulator, and the
  state after \<^verbatim>\<open>timeCount++\<close> and the rendering call.\<close>

definition loopPass :: "real \<Rightarrow> App \<Rightarrow> App" where
  "loopPass y a =
     a\<lparr>bodies := processFrame (pEngine a) (bodies a), accumulator := Finite y,
       physicsSteps := Suc (physicsSteps a)\<rparr>"

definition framePass :: "App \<Rightarrow> App" where
  "framePass a = a\<lparr>timeCount := (timeCount a + 1) mod 2 ^ 32, bodies := RenderFrame (bodies a)\<rparr>"

text \<open>A body without its trace history, which no physics step reads.\<close>

definition withoutTrace :: "Body \<Rightarrow> Body" where
  "withoutTrace b = b\<lparr>tracePoints := []\<rparr>"

subsection \<open>Concrete scenes\<close>

text \<open>A unit-mass ball of radius 1 at height 10, moving along x.\<close>

definition movingBall :: Body where
  "movingBall = setRadius 1 ((Body_default (Vec3 0 10 0))\<lparr>Velocity := Vec3 60 0 0\<rparr>)"

text \<open>Two overlapping balls of radius 1 and masses 1 and 3; the lighter one moves.\<close>

definition lightBall :: Body where
  "lightBall = setRadius 1 ((Body_default (Vec3 0 10 0))\<lparr>Velocity := Vec3 1 0 0\<rparr>)"

definition heavyBall :: Body where
  "heavyBall = setRadius 1 ((Body_default (Vec3 1 10 0))\<lparr>Mass := 3\<rparr>)"

text \<open>A ball whose mass has been set to \<open>-2\<close>, with a pending force.\<close>

definition negativeMassBall :: Body where
  "negativeMassBall =
     setRadius 1 ((Body_default (Vec3 0 10 0))\<lparr>Mass := - 2, vForceAccumulator := Vec3 4 0 0\<rparr>)"

text \<open>A light source with a pending force in its accumulator.\<close>

definition lamp :: Body where
  "lamp = setSource True (setRadius 1 ((Body_default (Vec3 0 0 4))\<lparr>vForceAccumulator := Vec3 1 0 0\<rparr>))"

text \<open>Two balls of the demo's mass, five units apart, well above the surface.\<close>

definition ballA :: Body where
  "ballA = setRadius 1 ((Body_default (Vec3 0 10 0))\<lparr>Mass := 3 * 10 ^ 12\<rparr>)"

definition ballB :: Body where
  "ballB = setRadius 1 ((Body_default (Vec3 3 14 0))\<lparr>Mass := 3 * 10 ^ 12\<rparr>)"

text \<open>A ball resting into the surface: centre at height \<open>-1.5\<close>, radius 1, falling.\<close>

definition sinkingBall :: Body where
  "sinkingBall = setRadius 1 ((Body_default (Vec3 2 (- 3 / 2) 5))\<lparr>Velocity := Vec3 1 (- 10) 3\<rparr>)"



text \<open>The application past its warm-up and demo frames, with an empty accumulator and the
  step \<open>h\<close>.\<close>

definition lateApp :: "real \<Rightarrow> App" where
  "lateApp h = \<lparr>pEngine = Physics_timeStep_speed h 3, bodies = [ballA, ballB, lamp],
                 accumulator = Finite 0, timeCount = 364, physicsSteps = 0\<rparr>"

section \<open>Proofs\<close>

lemmas vec3_defs = zero_vec3_def plus_vec3_def minus_vec3_def uminus_vec3_def smul_def vdiv_def
  set_y_def dot_def

lemmas scene_defs = movingBall_def lightBall_def heavyBall_def negativeMassBall_def lamp_def
  ballA_def ballB_def sinkingBall_def Body_default_def setRadius_def Sphere3D_setRadius_def
  generateSphere_def setSource_def

subsection \<open>List updates that keep a projection\<close>

lemma map_update_same: "f v = f (xs ! i) \<Longrightarrow> map f (xs[i := v]) = map f xs"
  by (metis list_update_id map_update)

lemma map_update2_same:
  "f u = f (xs ! i) \<Longrightarrow> f v = f (xs ! j) \<Longrightarrow> map f (xs[i := u, j := v]) = map f xs"
proof -
  assume u: "f u = f (xs ! i)" and v: "f v = f (xs ! j)"
  have "map f (xs[i := u, j := v]) = (map f xs)[i := f (xs ! i), j := f (xs ! j)]"
    by (simp add: map_update u v)
  also have "(map f xs)[i := f (xs ! i)] = map f xs"
    by (metis list_update_id map_update)
  also have "(map f xs)[j := f (xs ! j)] = map f xs"
    by (metis list_update_id map_update)
  finally show ?thesis .
qed

lemma fold_keeps: "(\<And>j xs. g (f j xs) = g xs) \<Longrightarrow> g (fold f js xs) = g xs"
  by (induction js arbitrary: xs) simp_all

lemma calculateGravForce_shape:
  "calculateGravForce a b =
     (a\<lparr>vForceAccumulator := vForceAccumulator a + gravContribution a b\<rparr>,
      b\<lparr>vForceAccumulator := vForceAccumulator b - gravContribution a b\<rparr>)"
  by (simp add: calculateGravForce_def gravContribution_def Let_def vec3_defs)

lemma processCollision_shape:
  "\<exists>p1 v1 p2 v2. processCollision a b
      = (a\<lparr>Position := p1, Velocity := v1\<rparr>, b\<lparr>Position := p2, Velocity := v2\<rparr>)"
  unfolding processCollision_def Let_def by blast

lemma processSurfaceCollision_shape:
  "\<exists>p1 v1. processSurfaceCollision a = a\<lparr>Position := p1, Velocity := v1\<rparr>"
proof -
  have "processSurfaceCollision a
        = a\<lparr>Position := Position (processSurfaceCollision a),
            Velocity := Velocity (processSurfaceCollision a)\<rparr>"
    by (simp add: processSurfaceCollision_def Let_def)
  then show ?thesis by blast
qed

lemma updateState_shape:
  "\<exists>p1 v1. updateState p a
      = a\<lparr>Acceleration := vdiv (Force a) (Mass a), Position := p1, Velocity := v1\<rparr>"
proof -
  have "updateState p a
        = a\<lparr>Acceleration := vdiv (Force a) (Mass a), Position := Position (updateState p a),
            Velocity := Velocity (updateState p a)\<rparr>"
    by (simp add: updateState_def Let_def)
  then show ?thesis by blast
qed

subsection \<open>Fields that a step never writes\<close>

lemma fixedPart_clearForce: "map fixedPart (clearForce i bs) = map fixedPart bs"
  by (simp add: clearForce_def map_update_same fixedPart_def)

lemma fixedPart_gravPair: "map fixedPart (gravPair i j bs) = map fixedPart bs"
  by (simp add: gravPair_def calculateGravForce_shape map_update2_same fixedPart_def)

lemma fixedPart_gravLoop: "map fixedPart (gravLoop i bs) = map fixedPart bs"
  unfolding gravLoop_def by (rule fold_keeps) (rule fixedPart_gravPair)

lemma fixedPart_integrate: "map fixedPart (integrate p i bs) = map fixedPart bs"
proof -
  obtain p1 v1 where "updateState p (calculateForce (bs ! i))
      = (calculateForce (bs ! i))
          \<lparr>Acceleration := vdiv (Force (calculateForce (bs ! i))) (Mass (calculateForce (bs ! i))),
           Position := p1, Velocity := v1\<rparr>"
    using updateState_shape by blast
  then show ?thesis
    by (simp add: integrate_def map_update_same fixedPart_def calculateForce_def Let_def)
qed

lemma fixedPart_surfaceStep: "map fixedPart (surfaceStep i bs) = map fixedPart bs"
proof -
  obtain p1 v1 where "processSurfaceCollision (bs ! i) = (bs ! i)\<lparr>Position := p1, Velocity := v1\<rparr>"
    using processSurfaceCollision_shape by blast
  then show ?thesis
    by (simp add: surfaceStep_def map_update_same fixedPart_def)
qed

lemma fixedPart_collidePair: "map fixedPart (collidePair i j bs) = map fixedPart bs"
proof -
  obtain p1 v1 p2 v2 where "processCollision (bs ! j) (bs ! i)
      = ((bs ! j)\<lparr>Position := p1, Velocity := v1\<rparr>, (bs ! i)\<lparr>Position := p2, Velocity := v2\<rparr>)"
    using processCollision_shape by blast
  then show ?thesis
    by (simp add: collidePair_def map_update2_same fixedPart_def)
qed

lemma fixedPart_collisionLoop: "map fixedPart (collisionLoop i bs) = map fixedPart bs"
  unfolding collisionLoop_def by (rule fold_keeps) (rule fixedPart_collidePair)

lemma fixedPart_decay: "map fixedPart (decay p i bs) = map fixedPart bs"
  by (simp add: decay_def Let_def map_update_same fixedPart_def)

lemma fixedPart_processBody: "map fixedPart (processBody p i bs) = map fixedPart bs"
  by (simp add: processBody_def Let_def fixedPart_clearForce fixedPart_gravLoop fixedPart_integrate
      fixedPart_surfaceStep fixedPart_collisionLoop fixedPart_decay)

lemma fixedPart_prefix: "map fixedPart (fold (processBody p) js bs) = map fixedPart bs"
  by (rule fold_keeps) (rule fixedPart_processBody)

lemma fixedPart_processFrame: "map fixedPart (processFrame p bs) = map fixedPart bs"
  unfolding processFrame_def by (rule fixedPart_prefix)

lemma fixedPart_nth:
  "map fixedPart xs = map fixedPart ys \<Longrightarrow> k < length ys \<Longrightarrow>
   sphere (xs ! k) = sphere (ys ! k) \<and> Mass (xs ! k) = Mass (ys ! k)"
proof -
  assume e: "map fixedPart xs = map fixedPart ys" and k: "k < length ys"
  have l: "length xs = length ys" using e by (rule map_eq_imp_length_eq)
  have "map fixedPart xs ! k = map fixedPart ys ! k" using e by simp
  then have "fixedPart (xs ! k) = fixedPart (ys ! k)" using k l by simp
  then show ?thesis by (simp add: fixedPart_def)
qed

subsection \<open>Force and accumulator through the statements of the loop body\<close>

lemma forceState_surfaceStep: "map forceState (surfaceStep i bs) = map forceState bs"
proof -
  obtain p1 v1 where "processSurfaceCollision (bs ! i) = (bs ! i)\<lparr>Position := p1, Velocity := v1\<rparr>"
    using processSurfaceCollision_shape by blast
  then show ?thesis
    by (simp add: surfaceStep_def map_update_same forceState_def)
qed

lemma forceState_collidePair: "map forceState (collidePair i j bs) = map forceState bs"
proof -
  obtain p1 v1 p2 v2 where "processCollision (bs ! j) (bs ! i)
      = ((bs ! j)\<lparr>Position := p1, Velocity := v1\<rparr>, (bs ! i)\<lparr>Position := p2, Velocity := v2\<rparr>)"
    using processCollision_shape by blast
  then show ?thesis
    by (simp add: collidePair_def map_update2_same forceState_def)
qed

lemma forceState_collisionLoop: "map forceState (collisionLoop i bs) = map forceState bs"
  unfolding collisionLoop_def by (rule fold_keeps) (rule forceState_collidePair)

lemma forceState_decay: "map forceState (decay p i bs) = map forceState bs"
  by (simp add: decay_def Let_def map_update_same forceState_def)

lemma forceState_after_integrate:
  "map forceState (decay p i (collisionLoop i (surfaceStep i bs))) = map forceState bs"
  by (simp add: forceState_decay forceState_collisionLoop forceState_surfaceStep)

lemma forceState_nth:
  "map forceState xs = map forceState ys \<Longrightarrow> k < length ys \<Longrightarrow>
   Force (xs ! k) = Force (ys ! k) \<and> vForceAccumulator (xs ! k) = vForceAccumulator (ys ! k)"
proof -
  assume e: "map forceState xs = map forceState ys" and k: "k < length ys"
  have l: "length xs = length ys" using e by (rule map_eq_imp_length_eq)
  have "map forceState xs ! k = map forceState ys ! k" using e by simp
  then have "forceState (xs ! k) = forceState (ys ! k)" using k l by simp
  then show ?thesis by (simp add: forceState_def)
qed

lemma Force_gravPair: "map Force (gravPair i j bs) = map Force bs"
  by (simp add: gravPair_def calculateGravForce_shape map_update2_same)

lemma Force_gravLoop: "map Force (gravLoop i bs) = map Force bs"
  unfolding gravLoop_def by (rule fold_keeps) (rule Force_gravPair)

lemma length_gravLoop: "length (gravLoop i bs) = length bs"
  using fixedPart_gravLoop by (rule map_eq_imp_length_eq)

lemma length_clearForce: "length (clearForce i bs) = length bs"
  by (simp add: clearForce_def)

lemma length_integrate: "length (integrate p i bs) = length bs"
  by (simp add: integrate_def)

lemma gravPair_other:
  "k \<noteq> i \<Longrightarrow> k \<noteq> j \<or> source (mesh (sphere (bs ! k))) \<Longrightarrow> gravPair i j bs ! k = bs ! k"
  by (auto simp add: gravPair_def split: prod.splits)

lemma gravPairs_other:
  "k \<noteq> i \<Longrightarrow> k \<notin> set js \<or> source (mesh (sphere (bs ! k))) \<Longrightarrow>
   fold (gravPair i) js bs ! k = bs ! k"
proof (induction js arbitrary: bs)
  case Nil
  then show ?case by simp
next
  case (Cons j js)
  have same: "gravPair i j bs ! k = bs ! k"
    using Cons.prems by (intro gravPair_other) auto
  have "fold (gravPair i) js (gravPair i j bs) ! k = gravPair i j bs ! k"
    using Cons.prems same by (intro Cons.IH) auto
  then show ?case using same by simp
qed

lemma gravLoop_other:
  "k < i \<or> (k \<noteq> i \<and> source (mesh (sphere (bs ! k)))) \<Longrightarrow> gravLoop i bs ! k = bs ! k"
  unfolding gravLoop_def by (rule gravPairs_other) auto

lemma clearForce_other: "k \<noteq> i \<Longrightarrow> clearForce i bs ! k = bs ! k"
  by (simp add: clearForce_def)

lemma integrate_other: "k \<noteq> i \<Longrightarrow> integrate p i bs ! k = bs ! k"
  by (simp add: integrate_def)

lemma integrate_self:
  "i < length bs \<Longrightarrow> integrate p i bs ! i = updateState p (calculateForce (bs ! i))"
  by (simp add: integrate_def)

lemma drained:
  "vForceAccumulator (updateState p (calculateForce b)) = Vec3 0 0 0
   \<and> Force (updateState p (calculateForce b)) = smul (Mass b) GRAV_FORCE + vForceAccumulator b"
  by (simp add: updateState_def calculateForce_def Let_def)

subsection \<open>One turn of the outer loop\<close>


lemma processBody_exempt:
  "source (mesh (sphere (bs ! i))) \<Longrightarrow> processBody p i bs = clearForce i bs"
  by (cases "i < length bs") (simp_all add: processBody_def Let_def clearForce_def list_update_beyond)

lemma processBody_active:
  "\<not> source (mesh (sphere (bs ! i))) \<Longrightarrow>
   processBody p i bs = decay p i (collisionLoop i (surfaceStep i (integrate p i (gravLoop i (clearForce i bs)))))"
  by (cases "i < length bs") (simp_all add: processBody_def Let_def clearForce_def list_update_beyond)

lemma processBody_Force_other:
  assumes "k < length bs" "k \<noteq> i"
  shows "Force (processBody p i bs ! k) = Force (bs ! k)"
proof (cases "source (mesh (sphere (bs ! i)))")
  case True
  then show ?thesis using assms by (simp add: processBody_exempt clearForce_other)
next
  case False
  let ?g = "gravLoop i (clearForce i bs)"
  have lg: "length ?g = length bs" by (simp add: length_gravLoop length_clearForce)
  have "Force (processBody p i bs ! k) = Force (integrate p i ?g ! k)"
    using False assms forceState_nth [OF forceState_after_integrate, of k "integrate p i ?g" p i]
    by (simp add: processBody_active length_integrate lg)
  also have "\<dots> = Force (?g ! k)" using assms by (simp add: integrate_other)
  also have "\<dots> = map Force ?g ! k" using assms lg by simp
  also have "\<dots> = map Force (clearForce i bs) ! k" by (simp add: Force_gravLoop)
  also have "\<dots> = Force (bs ! k)" using assms by (simp add: length_clearForce clearForce_other)
  finally show ?thesis .
qed

lemma processBody_acc_other:
  assumes "k < length bs" "k < i \<or> source (mesh (sphere (bs ! k)))"
  shows "vForceAccumulator (processBody p i bs ! k) = vForceAccumulator (bs ! k)"
proof (cases "source (mesh (sphere (bs ! i)))")
  case True
  then show ?thesis using assms
    by (cases "k = i") (simp_all add: processBody_exempt clearForce_other clearForce_def)
next
  case False
  let ?c = "clearForce i bs"
  let ?g = "gravLoop i ?c"
  have ki: "k \<noteq> i" using assms False by auto
  have lg: "length ?g = length bs" by (simp add: length_gravLoop length_clearForce)
  have ck: "?c ! k = bs ! k" using ki by (simp add: clearForce_other)
  have "vForceAccumulator (processBody p i bs ! k) = vForceAccumulator (integrate p i ?g ! k)"
    using False assms forceState_nth [OF forceState_after_integrate, of k "integrate p i ?g" p i]
    by (simp add: processBody_active length_integrate lg)
  also have "\<dots> = vForceAccumulator (?g ! k)" using ki by (simp add: integrate_other)
  also have "?g ! k = ?c ! k"
    using assms ki ck by (intro gravLoop_other) auto
  finally show ?thesis using ck by simp
qed

lemma processBody_self_active:
  assumes "i < length bs" "\<not> source (mesh (sphere (bs ! i)))"
  shows "vForceAccumulator (processBody p i bs ! i) = Vec3 0 0 0
         \<and> Force (processBody p i bs ! i)
             = smul (Mass (bs ! i)) GRAV_FORCE + vForceAccumulator (gravLoop i (clearForce i bs) ! i)"
proof -
  let ?c = "clearForce i bs"
  let ?g = "gravLoop i ?c"
  have lg: "length ?g = length bs" by (simp add: length_gravLoop length_clearForce)
  have fs: "Force (processBody p i bs ! i) = Force (integrate p i ?g ! i)
            \<and> vForceAccumulator (processBody p i bs ! i) = vForceAccumulator (integrate p i ?g ! i)"
    using assms forceState_nth [OF forceState_after_integrate, of i "integrate p i ?g" p i]
    by (simp add: processBody_active length_integrate lg)
  have self: "integrate p i ?g ! i = updateState p (calculateForce (?g ! i))"
    using assms lg by (simp add: integrate_self)
  have "Mass (?g ! i) = Mass (?c ! i)"
    using fixedPart_nth [OF fixedPart_gravLoop, of i ?c i] assms by (simp add: length_clearForce)
  also have "\<dots> = Mass (bs ! i)"
    using fixedPart_nth [OF fixedPart_clearForce, of i bs i] assms by simp
  finally have m: "Mass (?g ! i) = Mass (bs ! i)" .
  show ?thesis using fs self m drained [of p "?g ! i"] by simp
qed

lemma processBody_self_exempt:
  assumes "i < length bs" "source (mesh (sphere (bs ! i)))"
  shows "Force (processBody p i bs ! i) = Vec3 0 0 0"
  using assms by (simp add: processBody_exempt clearForce_def)

subsection \<open>A prefix of the outer loop\<close>

lemma source_prefix:
  "k < length bs \<Longrightarrow>
   source (mesh (sphere (fold (processBody p) js bs ! k))) = source (mesh (sphere (bs ! k)))"
  using fixedPart_nth [OF fixedPart_prefix, of k bs p js] by simp

lemma Mass_prefix:
  "k < length bs \<Longrightarrow> Mass (fold (processBody p) js bs ! k) = Mass (bs ! k)"
  using fixedPart_nth [OF fixedPart_prefix, of k bs p js] by simp

lemma length_prefix: "length (fold (processBody p) js bs) = length bs"
  using fixedPart_prefix by (rule map_eq_imp_length_eq)

lemma prefix_exempt_acc:
  "k < length bs \<Longrightarrow> source (mesh (sphere (bs ! k))) \<Longrightarrow>
   vForceAccumulator (fold (processBody p) [0..<m] bs ! k) = vForceAccumulator (bs ! k)"
proof (induction m)
  case 0
  then show ?case by simp
next
  case (Suc m)
  let ?pre = "fold (processBody p) [0..<m] bs"
  have "vForceAccumulator (processBody p m ?pre ! k) = vForceAccumulator (?pre ! k)"
    using Suc.prems by (intro processBody_acc_other) (simp_all add: length_prefix source_prefix)
  then show ?case using Suc by simp
qed

lemma prefix_exempt_Force:
  "k < length bs \<Longrightarrow> source (mesh (sphere (bs ! k))) \<Longrightarrow> k < m \<Longrightarrow>
   Force (fold (processBody p) [0..<m] bs ! k) = Vec3 0 0 0"
proof (induction m)
  case 0
  then show ?case by simp
next
  case (Suc m)
  let ?pre = "fold (processBody p) [0..<m] bs"
  show ?case
  proof (cases "k = m")
    case True
    have "Force (processBody p m ?pre ! m) = Vec3 0 0 0"
      using Suc.prems True by (intro processBody_self_exempt) (simp_all add: length_prefix source_prefix)
    then show ?thesis using True by simp
  next
    case False
    then have km: "k < m" using Suc.prems by simp
    have "Force (processBody p m ?pre ! k) = Force (?pre ! k)"
      using Suc.prems False by (intro processBody_Force_other) (simp_all add: length_prefix)
    then show ?thesis using Suc km by simp
  qed
qed

lemma prefix_active:
  "k < length bs \<Longrightarrow> \<not> source (mesh (sphere (bs ! k))) \<Longrightarrow> k < m \<Longrightarrow>
   vForceAccumulator (fold (processBody p) [0..<m] bs ! k) = Vec3 0 0 0
   \<and> Force (fold (processBody p) [0..<m] bs ! k)
       = smul (Mass (bs ! k)) GRAV_FORCE
         + vForceAccumulator (gravLoop k (clearForce k (fold (processBody p) [0..<k] bs)) ! k)"
proof (induction m)
  case 0
  then show ?case by simp
next
  case (Suc m)
  let ?pre = "fold (processBody p) [0..<m] bs"
  show ?case
  proof (cases "k = m")
    case True
    have "vForceAccumulator (processBody p m ?pre ! m) = Vec3 0 0 0
          \<and> Force (processBody p m ?pre ! m)
              = smul (Mass (?pre ! m)) GRAV_FORCE + vForceAccumulator (gravLoop m (clearForce m ?pre) ! m)"
      using Suc.prems True by (intro processBody_self_active) (simp_all add: length_prefix source_prefix)
    then show ?thesis using True Suc.prems by (simp add: Mass_prefix)
  next
    case False
    then have km: "k < m" using Suc.prems by simp
    have f: "Force (processBody p m ?pre ! k) = Force (?pre ! k)"
      using Suc.prems False by (intro processBody_Force_other) (simp_all add: length_prefix)
    have a: "vForceAccumulator (processBody p m ?pre ! k) = vForceAccumulator (?pre ! k)"
      using Suc.prems km by (intro processBody_acc_other) (simp_all add: length_prefix)
    show ?thesis using Suc km f a by simp
  qed
qed

subsection \<open>Rounding is exact on representable values\<close>

lemma pow2_powr: "pow2 k = 2 powr (of_int k)"
  by (simp add: pow2_def powr_int)

lemma pow2_pos: "0 < pow2 k"
  by (simp add: pow2_powr)

lemma pow2_add: "pow2 (a + b) = pow2 a * pow2 b"
  by (simp add: pow2_powr powr_add)

lemma pow2_of_nat: "0 \<le> j \<Longrightarrow> pow2 j = of_int (2 ^ nat j)"
  by (simp add: pow2_def)

lemma pow2_mono: "a \<le> b \<Longrightarrow> pow2 a \<le> pow2 b"
  by (simp add: pow2_powr)

lemma roundEven_of_int: "roundEven (of_int z) = z"
  by (simp add: roundEven_def)

lemma floor_log_bound:
  assumes "x \<noteq> 0" and "\<bar>x\<bar> < pow2 j"
  shows "\<lfloor>log 2 \<bar>x\<bar>\<rfloor> < j"
proof -
  have "log 2 \<bar>x\<bar> < of_int j"
    using assms by (simp add: pow2_powr log_less_iff)
  then show ?thesis by (simp add: floor_less_iff)
qed

lemma rnd_exact:
  assumes x: "x = of_int n * pow2 k" and n: "\<bar>n\<bar> < 2 ^ p" and k: "emin - int p + 1 \<le> k"
  shows "rnd p emin x = x"
proof (cases "x = 0")
  case True
  then show ?thesis by (simp add: rnd_def)
next
  case False
  define e where "e = max \<lfloor>log 2 \<bar>x\<bar>\<rfloor> emin"
  define j where "j = k - (e - int p + 1)"
  have "\<bar>x\<bar> = of_int \<bar>n\<bar> * pow2 k"
    using x pow2_pos [of k] by (simp add: abs_mult)
  also have "\<dots> < of_int (2 ^ p) * pow2 k"
  proof -
    have "real_of_int \<bar>n\<bar> < real_of_int (2 ^ p)" using n by (simp only: of_int_less_iff)
    then show ?thesis using pow2_pos [of k] by (rule mult_strict_right_mono)
  qed
  also have "\<dots> = pow2 (int p + k)"
    by (simp add: pow2_add pow2_of_nat)
  finally have "\<lfloor>log 2 \<bar>x\<bar>\<rfloor> < int p + k"
    using False by (intro floor_log_bound)
  then have j: "0 \<le> j" using k by (simp add: j_def e_def)
  have "pow2 k = pow2 j * pow2 (e - int p + 1)"
    by (simp add: j_def pow2_add [symmetric])
  then have "x / pow2 (e - int p + 1) = of_int n * pow2 j"
    using x pow2_pos [of "e - int p + 1"] by simp
  also have "\<dots> = of_int (n * 2 ^ nat j)"
    using j by (simp add: pow2_of_nat)
  finally have q: "x / pow2 (e - int p + 1) = of_int (n * 2 ^ nat j)" .
  have "rnd p emin x = of_int (roundEven (x / pow2 (e - int p + 1))) * pow2 (e - int p + 1)"
    using False by (simp add: rnd_def e_def Let_def)
  also have "\<dots> = of_int (n * 2 ^ nat j) * pow2 (e - int p + 1)"
    by (simp only: q roundEven_of_int)
  also have "\<dots> = x / pow2 (e - int p + 1) * pow2 (e - int p + 1)"
    by (simp only: q)
  also have "\<dots> = x"
    using pow2_pos [of "e - int p + 1"] by simp
  finally show ?thesis .
qed

lemma rnd32_exact:
  "x = of_int n * pow2 k \<Longrightarrow> \<bar>n\<bar> < 2 ^ 24 \<Longrightarrow> - 149 \<le> k \<Longrightarrow> rnd32 x = x"
  unfolding rnd32_def by (rule rnd_exact [where n = n and k = k]) simp_all

lemma rnd64_exact:
  "x = of_int n * pow2 k \<Longrightarrow> \<bar>n\<bar> < 2 ^ 24 \<Longrightarrow> - 149 \<le> k \<Longrightarrow> rnd64 x = x"
  unfolding rnd64_def by (rule rnd_exact [where n = n and k = k]) simp_all

lemma to32_exact:
  assumes x: "x = of_int n * pow2 k" and n: "\<bar>n\<bar> < 2 ^ 24" and k: "- 149 \<le> k" "k \<le> 104"
  shows "to32 x = Finite x"
proof -
  have "\<bar>x\<bar> = of_int \<bar>n\<bar> * pow2 k"
    using x pow2_pos [of k] by (simp add: abs_mult)
  also have "\<dots> < of_int (2 ^ 24) * pow2 k"
  proof -
    have "real_of_int \<bar>n\<bar> < real_of_int (2 ^ 24)" using n by (simp only: of_int_less_iff)
    then show ?thesis using pow2_pos [of k] by (rule mult_strict_right_mono)
  qed
  also have "\<dots> = pow2 (24 + k)"
    by (simp add: pow2_add pow2_of_nat)
  also have "\<dots> \<le> pow2 128"
    using k by (intro pow2_mono) simp
  finally have "\<bar>x\<bar> < pow2 128" .
  then show ?thesis
    using rnd32_exact [OF x n k(1)] by (simp add: to32_def Let_def abs_less_iff)
qed

subsection \<open>A physics step does not read the trace history\<close>

lemma withoutTrace_fields [simp]:
  "sphere (withoutTrace b) = sphere b" "Mass (withoutTrace b) = Mass b"
  "Position (withoutTrace b) = Position b" "Velocity (withoutTrace b) = Velocity b"
  "Acceleration (withoutTrace b) = Acceleration b" "Force (withoutTrace b) = Force b"
  "vForceAccumulator (withoutTrace b) = vForceAccumulator b"
  by (simp_all add: withoutTrace_def)








lemma withoutTrace_tests [simp]:
  "onSurface (withoutTrace b) = onSurface b"
  "areColliding (withoutTrace a) (withoutTrace b) = areColliding a b"
  by (simp_all add: onSurface_def areColliding_def)


















subsection \<open>The stepping loop when no update rounds\<close>






lemma onGridI: "x = of_int n * pow2 k \<Longrightarrow> onGrid k x"
  using pow2_pos [of k] unfolding onGrid_def by simp

lemma onGridD:
  assumes "onGrid k x"
  shows "x = of_int \<lfloor>x / pow2 k\<rfloor> * pow2 k"
proof -
  have e: "of_int \<lfloor>x / pow2 k\<rfloor> = x / pow2 k"
    using assms unfolding onGrid_def .
  have "x = x / pow2 k * pow2 k"
    using pow2_pos [of k] by simp
  then show ?thesis by (simp only: e)
qed

lemma onGrid_add: "onGrid k x \<Longrightarrow> onGrid k y \<Longrightarrow> onGrid k (x + y)"
proof -
  assume "onGrid k x" "onGrid k y"
  then have "x + y = of_int (\<lfloor>x / pow2 k\<rfloor> + \<lfloor>y / pow2 k\<rfloor>) * pow2 k"
    using onGridD [of k x] onGridD [of k y] by (simp add: algebra_simps)
  then show ?thesis by (rule onGridI)
qed


lemma onGrid_0: "onGrid k 0"
  by (simp add: onGrid_def)

lemma onGrid_sum_list: "\<forall>d\<in>set ds. onGrid k d \<and> 0 \<le> d \<Longrightarrow> onGrid k (sum_list ds)"
  by (induction ds) (simp_all add: onGrid_0 onGrid_add)













section \<open>The claims\<close>

lemmas frame_defs = processFrame_def processBody_def clearForce_def gravLoop_def integrate_def
  surfaceStep_def collisionLoop_def decay_def Let_def updateState_def calculateForce_def
  onSurface_def isZero_def epsilonEqual_all_def EPSILON_def surfaceY_def getRadius_def
  GRAV_FORCE_def vLambda_def

subsection \<open>C1: the integrator and the speed multiplier\<close>

text \<open>What the integrator computes, for every engine and body: the force is the field force
  plus the drained accumulator, the acceleration is force over mass, the velocity gains
  acceleration times \<open>dt\<close>, and the position gains the new velocity times \<open>dt\<close>. \<open>Speed\<close>
  does not occur.\<close>

lemma integrator_result:
  "Force (updateState p (calculateForce b)) = smul (Mass b) GRAV_FORCE + vForceAccumulator b
   \<and> Acceleration (updateState p (calculateForce b))
       = vdiv (smul (Mass b) GRAV_FORCE + vForceAccumulator b) (Mass b)
   \<and> Velocity (updateState p (calculateForce b))
       = Velocity b + smul (dt p) (Acceleration (updateState p (calculateForce b)))
   \<and> Position (updateState p (calculateForce b))
       = Position b + smul (dt p) (Velocity (updateState p (calculateForce b)))"
  by (simp add: updateState_def calculateForce_def Let_def)

lemma updateState_Speed_irrelevant: "updateState (p\<lparr>Speed := s\<rparr>) b = updateState p b"
  by (simp add: updateState_def Let_def)

text \<open>
  C1 (the code departs from the claim). The claim: the position is advanced by the updated
  velocity times \<open>dt\<close> times the speed multiplier, whose default is 3. With the default
  engine (\<open>Speed = 3\<close>, \<open>dt = 1/60\<close>) and one ball of mass 1 at \<open>(0, 10, 0)\<close> moving with
  velocity \<open>(60, 0, 0)\<close> and no force, a physics step moves the ball to \<open>(1, 10, 0)\<close>, that is
  by velocity times \<open>dt\<close>; the claimed update would put it at \<open>(3, 10, 0)\<close>.
\<close>

theorem updateState_ignores_Speed:
  "Speed Physics_default = 3
   \<and> Position (processFrame Physics_default [movingBall] ! 0) = Vec3 1 10 0
   \<and> Velocity (processFrame Physics_default [movingBall] ! 0) = Vec3 60 0 0
   \<and> Position movingBall
       + smul (dt Physics_default * Speed Physics_default)
           (Velocity (processFrame Physics_default [movingBall] ! 0)) = Vec3 3 10 0"
  by (simp add: frame_defs scene_defs Physics_default_def vec3_defs)

subsection \<open>C2: the velocities after a pairwise collision\<close>

text \<open>What the source computes, for all bodies: the first velocity is the elastic formula,
  the second has \<open>m\<^sub>1 + m\<^sub>2\<close> where the formula has \<open>2 m\<^sub>1\<close>.\<close>

lemma processCollision_velocities:
  "Velocity (fst (processCollision one two))
     = vdiv (smul (Mass one - Mass two) (Velocity one) + smul (2 * Mass two) (Velocity two))
            (Mass one + Mass two)
   \<and> Velocity (snd (processCollision one two))
     = vdiv (smul (Mass one + Mass two) (Velocity one) + smul (Mass two - Mass one) (Velocity two))
            (Mass one + Mass two)"
  by (simp add: processCollision_def Let_def vec3_defs)

text \<open>
  C2 (the code departs from the claim). The claim: after \<^verbatim>\<open>processCollision\<close> the second body
  has velocity \<open>(2 m\<^sub>1 v\<^sub>1 + (m\<^sub>2 - m\<^sub>1) v\<^sub>2) / (m\<^sub>1 + m\<^sub>2)\<close>. For two overlapping balls of
  radius 1, the first of mass 1 with velocity \<open>(1, 0, 0)\<close> and the second of mass 3 at rest,
  the collision test holds, the claimed velocity of the second is \<open>(1/2, 0, 0)\<close>, and the
  code gives it \<open>(1, 0, 0)\<close>; the first gets \<open>(-1/2, 0, 0)\<close> as claimed, so the total
  momentum goes from \<open>(1, 0, 0)\<close> to \<open>(5/2, 0, 0)\<close>.
\<close>

theorem processCollision_second_velocity_slip:
  "areColliding lightBall heavyBall
   \<and> \<not> (isZero (Velocity heavyBall) \<and> isZero (Velocity lightBall))
   \<and> Velocity (fst (processCollision lightBall heavyBall)) = Vec3 (- (1 / 2)) 0 0
   \<and> Velocity (snd (processCollision lightBall heavyBall)) = Vec3 1 0 0
   \<and> vdiv (smul (2 * Mass lightBall) (Velocity lightBall)
            + smul (Mass heavyBall - Mass lightBall) (Velocity heavyBall))
           (Mass lightBall + Mass heavyBall) = Vec3 (1 / 2) 0 0
   \<and> momentum lightBall + momentum heavyBall = Vec3 1 0 0
   \<and> momentum (fst (processCollision lightBall heavyBall))
       + momentum (snd (processCollision lightBall heavyBall)) = Vec3 (5 / 2) 0 0"
  by (simp add: processCollision_def Let_def vec3_defs scene_defs areColliding_def isZero_def
      epsilonEqual_all_def EPSILON_def getRadius_def momentum_def)

subsection \<open>C3: the stepping loop and the split of real time\<close>

text \<open>Evaluating the loop at the default step, in units of \<open>2\<^sup>-\<^sup>2\<^sup>9\<close>.\<close>

lemma lateApp_fields:
  "dt (pEngine (lateApp h)) = h"
  "accumulator (lateApp h) = Finite 0" "timeCount (lateApp h) = 364"
  "physicsSteps (lateApp h) = 0" "bodies (lateApp h) = [ballA, ballB, lamp]"
  by (simp_all add: lateApp_def Physics_timeStep_speed_def)















lemma loopPass_fields:
  "accumulator (loopPass y a) = Finite y" "pEngine (loopPass y a) = pEngine a"
  "physicsSteps (loopPass y a) = Suc (physicsSteps a)" "timeCount (loopPass y a) = timeCount a"
  by (simp_all add: loopPass_def)

lemma framePass_fields:
  "accumulator (framePass a) = accumulator a" "pEngine (framePass a) = pEngine a"
  "physicsSteps (framePass a) = physicsSteps a"
  "timeCount (framePass a) = (timeCount a + 1) mod 2 ^ 32"
  by (simp_all add: framePass_def)




lemma runFrame_framePass: "advance d a = Some a' \<Longrightarrow> runFrame d a = Some (framePass a')"
  by (simp add: runFrame_def framePass_def)








text \<open>The warm-up test alone already ties the number of steps to the split: from
  \<open>timeCount = 120\<close> with the step \<open>1/64\<close>, two frames of \<open>1/64\<close> run one physics step (the
  first frame time is dropped, the second is taken), one frame of \<open>2/64\<close> runs none.\<close>

lemma warm_up_frame: "timeCount a \<le> 120 \<Longrightarrow> runFrame d a = Some (framePass a)"
  by (simp add: runFrame_def advance_def framePass_def)

lemma warm_up_drops_frame_time:
  "map_option physicsSteps
     (runFrames [1 / 64, 1 / 64] ((lateApp (1 / 64))\<lparr>timeCount := 120\<rparr>)) = Some 1
   \<and> map_option physicsSteps
     (runFrames [2 / 64] ((lateApp (1 / 64))\<lparr>timeCount := 120\<rparr>)) = Some 0"
proof -
  let ?a = "(lateApp (1 / 64))\<lparr>timeCount := 120\<rparr>"
  let ?b = "(framePass ?a)\<lparr>accumulator := Finite (1 / 64)\<rparr>"
  have f1: "runFrame (1 / 64) ?a = Some (framePass ?a)" by (rule warm_up_frame) simp
  have f1': "runFrame (2 / 64) ?a = Some (framePass ?a)" by (rule warm_up_frame) simp
  have r: "rnd64 (1 / 64) = 1 / 64"
    by (rule rnd64_exact [where n = 1 and k = "- 6"]) (simp_all add: pow2_def)
  have t: "to32 (1 / 64) = Finite (1 / 64)"
    by (rule to32_exact [where n = 1 and k = "- 6"]) (simp_all add: pow2_def)
  have e0: "to32 0 = Finite 0"
    by (simp add: to32_def rnd32_def rnd_def pow2_def)
  have "advance (1 / 64) (framePass ?a) = physicsLoop ?b"
    unfolding advance_def Let_def
    by (simp add: framePass_def lateApp_def r t)
  also have "\<dots> = physicsLoop (loopPass 0 ?b)"
    by (subst physicsLoop.simps)
       (simp add: framePass_def lateApp_def loopPass_def Physics_timeStep_speed_def e0)
  also have "\<dots> = Some (loopPass 0 ?b)"
    by (subst physicsLoop.simps)
       (simp add: framePass_def lateApp_def loopPass_def Physics_timeStep_speed_def)
  finally have "runFrame (1 / 64) (framePass ?a) = Some (framePass (loopPass 0 ?b))"
    by (rule runFrame_framePass)
  then show ?thesis
    using f1 f1' by (simp add: framePass_fields loopPass_fields lateApp_fields)
qed





subsection \<open>C4: the accumulator across a step\<close>

text \<open>
  C4, as stated, fails on a light source: the outer loop leaves its turn right after
  clearing \<^verbatim>\<open>Force\<close>, so \<^verbatim>\<open>calculateForce\<close> never runs for it. A step over the single light
  source \<open>lamp\<close>, whose accumulator holds \<open>(1, 0, 0)\<close>, leaves that value in the accumulator
  and leaves \<^verbatim>\<open>Force\<close> zero.
\<close>

theorem exempt_accumulator_survives:
  "source (mesh (sphere lamp))
   \<and> vForceAccumulator (processFrame Physics_default [lamp] ! 0) = Vec3 1 0 0
   \<and> Force (processFrame Physics_default [lamp] ! 0) = Vec3 0 0 0"
  by (simp add: processFrame_def processBody_def clearForce_def Let_def scene_defs)

text \<open>
  C4, amended. A physics step keeps the number of bodies, and for every body of the list:
  if it is not a light source, its accumulator is zero after the step and its \<^verbatim>\<open>Force\<close> is
  the field force plus the value its accumulator had when its turn's gravity loop was
  over (the accumulator is drained into the force, then reset); if it is a light source,
  its accumulator is left as it was and its \<^verbatim>\<open>Force\<close> is zero.
\<close>

theorem processFrame_accumulators:
  "length (processFrame p bs) = length bs \<and>
   (\<forall>i<length bs.
      if source (mesh (sphere (bs ! i)))
      then vForceAccumulator (processFrame p bs ! i) = vForceAccumulator (bs ! i)
           \<and> Force (processFrame p bs ! i) = Vec3 0 0 0
      else vForceAccumulator (processFrame p bs ! i) = Vec3 0 0 0
           \<and> Force (processFrame p bs ! i)
               = smul (Mass (bs ! i)) GRAV_FORCE
                 + vForceAccumulator
                     (gravLoop i (clearForce i (fold (processBody p) [0..<i] bs)) ! i))"
  unfolding processFrame_def
  by (simp add: length_prefix prefix_exempt_acc prefix_exempt_Force prefix_active)

text \<open>The theorem at the scene of a light source and two balls: the lamp keeps \<open>(1, 0, 0)\<close>
  in its accumulator, both balls end the step with an empty one.\<close>

theorem processFrame_accumulators_witness:
  "vForceAccumulator (processFrame Physics_default [lamp, ballA, ballB] ! 0) = Vec3 1 0 0
   \<and> Force (processFrame Physics_default [lamp, ballA, ballB] ! 0) = Vec3 0 0 0
   \<and> vForceAccumulator (processFrame Physics_default [lamp, ballA, ballB] ! 1) = Vec3 0 0 0
   \<and> vForceAccumulator (processFrame Physics_default [lamp, ballA, ballB] ! 2) = Vec3 0 0 0"
proof -
  have s0: "source (mesh (sphere ([lamp, ballA, ballB] ! 0)))" by (simp add: scene_defs)
  have s1: "\<not> source (mesh (sphere ([lamp, ballA, ballB] ! 1)))" by (simp add: scene_defs)
  have s2: "\<not> source (mesh (sphere ([lamp, ballA, ballB] ! 2)))" by (simp add: scene_defs)
  have a: "vForceAccumulator ([lamp, ballA, ballB] ! 0) = Vec3 1 0 0" by (simp add: scene_defs)
  have all: "\<forall>i<3. if source (mesh (sphere ([lamp, ballA, ballB] ! i)))
      then vForceAccumulator (processFrame Physics_default [lamp, ballA, ballB] ! i)
             = vForceAccumulator ([lamp, ballA, ballB] ! i)
           \<and> Force (processFrame Physics_default [lamp, ballA, ballB] ! i) = Vec3 0 0 0
      else vForceAccumulator (processFrame Physics_default [lamp, ballA, ballB] ! i) = Vec3 0 0 0
           \<and> Force (processFrame Physics_default [lamp, ballA, ballB] ! i)
               = smul (Mass ([lamp, ballA, ballB] ! i)) GRAV_FORCE
                 + vForceAccumulator
                     (gravLoop i (clearForce i
                        (fold (processBody Physics_default) [0..<i] [lamp, ballA, ballB])) ! i)"
    using processFrame_accumulators [of Physics_default "[lamp, ballA, ballB]"] by simp
  have i0: "(0::nat) < 3" and i1: "(1::nat) < 3" and i2: "(2::nat) < 3" by simp_all
  show ?thesis
    using all [rule_format, OF i0] all [rule_format, OF i1] all [rule_format, OF i2] s0 s1 s2 a
    by simp
qed

subsection \<open>C5: the momentum of two bodies\<close>

lemma smul_one: "smul 1 v = v"
  by (simp add: smul_def)

lemma decay_id: "decay p i bs = bs"
  by (simp add: decay_def vLambda_def smul_one)

lemma collidePairs_id:
  "list_all (\<lambda>j. source (mesh (sphere (bs ! j)))
                  \<or> \<not> (areColliding (bs ! j) (bs ! i)
                        \<and> \<not> (isZero (Velocity (bs ! i)) \<and> isZero (Velocity (bs ! j))))) js \<Longrightarrow>
   fold (collidePair i) js bs = bs"
proof (induction js)
  case Nil
  then show ?case by simp
next
  case (Cons j js)
  have "collidePair i j bs = bs" using Cons.prems by (auto simp add: collidePair_def)
  then show ?case using Cons by simp
qed

lemma processBody_noCollision:
  assumes "\<not> source (mesh (sphere (bs ! i)))" and "noCollisionAt p i bs"
  shows "processBody p i bs = integrate p i (gravLoop i (clearForce i bs))"
proof -
  let ?s = "integrate p i (gravLoop i (clearForce i bs))"
  have surf: "surfaceStep i ?s = ?s"
    using assms(2) by (simp add: noCollisionAt_def Let_def surfaceStep_def)
  have "fold (collidePair i) [Suc i..<length ?s] ?s = ?s"
    using assms(2) by (intro collidePairs_id) (simp add: noCollisionAt_def Let_def)
  then have coll: "collisionLoop i ?s = ?s" by (simp add: collisionLoop_def)
  show ?thesis
    using assms(1) by (simp add: processBody_active surf coll decay_id)
qed

lemma gravContribution_Force: "gravContribution (a\<lparr>Force := f\<rparr>) b = gravContribution a b"
  by (simp add: gravContribution_def calculateDistanceSquare_def)

lemma two_body_first:
  assumes "\<not> source (mesh (sphere a))" "\<not> source (mesh (sphere b))"
  shows "integrate p 0 (gravLoop 0 (clearForce 0 [a, b]))
         = [pulled p a (gravContribution a b),
            b\<lparr>vForceAccumulator := vForceAccumulator b - gravContribution a b\<rparr>]"
  using assms
  by (simp add: integrate_def gravLoop_def clearForce_def gravPair_def calculateGravForce_shape
      gravContribution_Force pulled_def)

lemma two_body_second:
  "integrate p (Suc 0) (gravLoop (Suc 0) (clearForce (Suc 0) [a, b]))
         = [a, pulled p b 0]"
  by (simp add: integrate_def gravLoop_def clearForce_def pulled_def)

lemma pulled_fields:
  "sphere (pulled p b w) = sphere b \<and> Mass (pulled p b w) = Mass b
   \<and> vForceAccumulator (pulled p b w) = Vec3 0 0 0
   \<and> Velocity (pulled p b w)
       = Velocity b + smul (dt p) (vdiv (smul (Mass b) GRAV_FORCE + (vForceAccumulator b + w)) (Mass b))"
  by (simp add: pulled_def updateState_def calculateForce_def Let_def)

lemma two_body_step:
  assumes na: "\<not> source (mesh (sphere a))" and nb: "\<not> source (mesh (sphere b))"
    and free: "noCollisionInFrame p [a, b]"
  shows "processFrame p [a, b]
         = [pulled p a (gravContribution a b),
            pulled p (b\<lparr>vForceAccumulator := vForceAccumulator b - gravContribution a b\<rparr>) 0]"
proof -
  let ?b1 = "b\<lparr>vForceAccumulator := vForceAccumulator b - gravContribution a b\<rparr>"
  let ?s1 = "[pulled p a (gravContribution a b), ?b1]"
  have f0: "noCollisionAt p 0 [a, b]"
    using free na by (simp add: noCollisionInFrame_def)
  have first: "processBody p 0 [a, b] = ?s1"
    using processBody_noCollision [of "[a, b]" 0 p] na f0 two_body_first [OF na nb, of p] by simp
  have f1: "noCollisionAt p (Suc 0) ?s1"
    using free nb first by (simp add: noCollisionInFrame_def)
  have "processBody p (Suc 0) ?s1 = [pulled p a (gravContribution a b), pulled p ?b1 0]"
    using processBody_noCollision [of ?s1 "Suc 0" p] nb f1
      two_body_second [of p "pulled p a (gravContribution a b)" ?b1]
    by simp
  then show ?thesis using first by (simp add: processFrame_def)
qed

lemma pulled_pair_momentum:
  assumes "Mass a \<noteq> 0" "Mass b \<noteq> 0"
    and "vForceAccumulator a = Vec3 0 0 0" "vForceAccumulator b = Vec3 0 0 0"
  shows "totalMomentum [pulled p a w, pulled p (b\<lparr>vForceAccumulator := vForceAccumulator b - w\<rparr>) 0]
         = totalMomentum [a, b]"
  using assms
  by (cases w)
     (simp add: totalMomentum_def momentum_def pulled_fields GRAV_FORCE_def zero_vec3_def plus_vec3_def
      minus_vec3_def smul_def vdiv_def field_simps)

text \<open>
  C5. Take a system of exactly two bodies, neither a light source, with non-zero masses and
  with empty accumulators (no force pending from outside). If no collision branch, with
  the surface or between the two, is taken in any of the first \<open>n\<close> physics steps, then the
  total momentum \<open>m\<^sub>1 v\<^sub>1 + m\<^sub>2 v\<^sub>2\<close> after \<open>n\<close> steps is the initial one. (The decay rate
  \<^verbatim>\<open>vLambda\<close> is the constant 0 of the source; the two gravity contributions are \<open>w\<close> and
  \<open>- w\<close>, see \<open>calculateGravForce_shape\<close>.)
\<close>

theorem two_body_momentum_conserved:
  assumes "\<not> source (mesh (sphere a))" and "\<not> source (mesh (sphere b))"
    and "Mass a \<noteq> 0" and "Mass b \<noteq> 0"
    and "vForceAccumulator a = Vec3 0 0 0" and "vForceAccumulator b = Vec3 0 0 0"
    and "\<forall>k<n. noCollisionInFrame p ((processFrame p ^^ k) [a, b])"
  shows "totalMomentum ((processFrame p ^^ n) [a, b]) = totalMomentum [a, b]"
  using assms
proof (induction n arbitrary: a b)
  case 0
  then show ?case by simp
next
  case (Suc n)
  let ?w = "gravContribution a b"
  let ?a' = "pulled p a ?w"
  let ?b' = "pulled p (b\<lparr>vForceAccumulator := vForceAccumulator b - ?w\<rparr>) 0"
  have free0: "noCollisionInFrame p [a, b]"
    using Suc.prems(7) [rule_format, of 0] by simp
  have step: "processFrame p [a, b] = [?a', ?b']"
    using Suc.prems(1,2) free0 by (rule two_body_step)
  have later: "\<forall>k<n. noCollisionInFrame p ((processFrame p ^^ k) [?a', ?b'])"
  proof (intro allI impI)
    fix k assume "k < n"
    then have "Suc k < Suc n" by simp
    then have "noCollisionInFrame p ((processFrame p ^^ Suc k) [a, b])"
      using Suc.prems(7) by blast
    then show "noCollisionInFrame p ((processFrame p ^^ k) [?a', ?b'])"
      by (simp only: funpow_Suc_right o_apply step)
  qed
  have "totalMomentum ((processFrame p ^^ n) [?a', ?b']) = totalMomentum [?a', ?b']"
    using Suc.prems(1-6) later by (intro Suc.IH) (simp_all add: pulled_fields)
  also have "\<dots> = totalMomentum [a, b]"
    using Suc.prems(3-6) by (rule pulled_pair_momentum)
  finally show ?case by (simp only: funpow_Suc_right o_apply step)
qed

text \<open>The scene of the witness: two balls of mass \<open>3 \<times> 10\<^sup>1\<^sup>2\<close> at rest, five units apart.\<close>

lemma sqrt_25: "sqrt 25 = 5"
proof -
  have "sqrt 25 = sqrt (5\<^sup>2)" by simp
  then show ?thesis by (simp only: real_sqrt_abs)
qed

lemma scene_pull: "gravContribution ballA ballB = Vec3 (14416488 * 10 ^ 6) (19221984 * 10 ^ 6) 0"
  by (simp add: gravContribution_def calculateDistanceSquare_def minDistSq_def EPSILON_def
      GRAV_CONST_def normalize_def scene_defs vec3_defs sqrt_25)


lemma scene_kinds: "\<not> source (mesh (sphere ballA))" "\<not> source (mesh (sphere ballB))"
  by (simp_all add: scene_defs)

lemma scene_first:
  "integrate Physics_default 0 (gravLoop 0 (clearForce 0 [ballA, ballB]))
   = [pulled Physics_default ballA (gravContribution ballA ballB),
      ballB\<lparr>vForceAccumulator := vForceAccumulator ballB - gravContribution ballA ballB\<rparr>]"
  using scene_kinds by (rule two_body_first)

lemma ballA_fields:
  "Mass ballA = 3 * 10 ^ 12" "Position ballA = Vec3 0 10 0" "Velocity ballA = Vec3 0 0 0"
  "vForceAccumulator ballA = Vec3 0 0 0" "Radius (geometry (sphere ballA)) = 1"
  by (simp_all add: scene_defs zero_vec3_def)

lemma ballB_fields:
  "Mass ballB = 3 * 10 ^ 12" "Position ballB = Vec3 3 14 0" "Velocity ballB = Vec3 0 0 0"
  "vForceAccumulator ballB = Vec3 0 0 0" "Radius (geometry (sphere ballB)) = 1"
  by (simp_all add: scene_defs zero_vec3_def)

lemma scene_ballA':
  "Position (pulled Physics_default ballA (gravContribution ballA ballB))
     = Vec3 (200229 / 150000000) (10 + 66743 / 37500000) 0
   \<and> Velocity (pulled Physics_default ballA (gravContribution ballA ballB))
     = Vec3 (200229 / 2500000) (66743 / 625000) 0
   \<and> sphere (pulled Physics_default ballA (gravContribution ballA ballB)) = sphere ballA"
  by (simp add: scene_pull pulled_def updateState_def calculateForce_def Let_def GRAV_FORCE_def
      Physics_default_def ballA_fields vec3_defs)

lemma scene_free_0: "noCollisionAt Physics_default 0 [ballA, ballB]"
  unfolding noCollisionAt_def Let_def scene_first
  by (simp add: scene_ballA' scene_kinds ballA_fields ballB_fields onSurface_def areColliding_def
      getRadius_def surfaceY_def EPSILON_def vec3_defs)


lemma scene_after_first:
  "processBody Physics_default 0 [ballA, ballB]
   = [pulled Physics_default ballA (gravContribution ballA ballB),
      ballB\<lparr>vForceAccumulator := vForceAccumulator ballB - gravContribution ballA ballB\<rparr>]"
  using processBody_noCollision [of "[ballA, ballB]" 0 Physics_default] scene_kinds scene_free_0
    scene_first
  by simp

lemma scene_ballB':
  "Position (pulled Physics_default
       (ballB\<lparr>vForceAccumulator := vForceAccumulator ballB - gravContribution ballA ballB\<rparr>) 0)
     = Vec3 (3 - 200229 / 150000000) (14 - 66743 / 37500000) 0
   \<and> Velocity (pulled Physics_default
       (ballB\<lparr>vForceAccumulator := vForceAccumulator ballB - gravContribution ballA ballB\<rparr>) 0)
     = Vec3 (- (200229 / 2500000)) (- (66743 / 625000)) 0"
  by (simp add: scene_pull pulled_def updateState_def calculateForce_def Let_def GRAV_FORCE_def
      Physics_default_def ballB_fields vec3_defs)

lemma scene_free_1:
  "noCollisionAt Physics_default (Suc 0)
     [pulled Physics_default ballA (gravContribution ballA ballB),
      ballB\<lparr>vForceAccumulator := vForceAccumulator ballB - gravContribution ballA ballB\<rparr>]"
  unfolding noCollisionAt_def Let_def two_body_second
  by (simp add: scene_ballB' pulled_fields ballB_fields(5) onSurface_def getRadius_def surfaceY_def
      EPSILON_def)

lemma scene_free: "noCollisionInFrame Physics_default [ballA, ballB]"
  by (simp add: noCollisionInFrame_def scene_kinds scene_free_0 scene_free_1 scene_after_first)

text \<open>The theorem at that scene, for one step: no collision branch is taken, the balls
  gain opposite velocities, and the total momentum is still zero.\<close>

theorem two_body_momentum_conserved_witness:
  "noCollisionInFrame Physics_default [ballA, ballB]
   \<and> Velocity (processFrame Physics_default [ballA, ballB] ! 0)
       = Vec3 (200229 / 2500000) (66743 / 625000) 0
   \<and> Velocity (processFrame Physics_default [ballA, ballB] ! 1)
       = Vec3 (- (200229 / 2500000)) (- (66743 / 625000)) 0
   \<and> totalMomentum ((processFrame Physics_default ^^ 1) [ballA, ballB]) = Vec3 0 0 0"
proof -
  have m: "Mass ballA \<noteq> 0" "Mass ballB \<noteq> 0" by (simp_all add: ballA_fields ballB_fields)
  have z: "vForceAccumulator ballA = Vec3 0 0 0" "vForceAccumulator ballB = Vec3 0 0 0"
    by (simp_all add: ballA_fields ballB_fields)
  have f: "\<forall>k<1. noCollisionInFrame Physics_default ((processFrame Physics_default ^^ k) [ballA, ballB])"
    by (simp add: scene_free)
  have t: "totalMomentum [ballA, ballB] = Vec3 0 0 0"
    by (simp add: totalMomentum_def momentum_def ballA_fields ballB_fields vec3_defs)
  have s: "processFrame Physics_default [ballA, ballB]
           = [pulled Physics_default ballA (gravContribution ballA ballB),
              pulled Physics_default
                (ballB\<lparr>vForceAccumulator := vForceAccumulator ballB - gravContribution ballA ballB\<rparr>) 0]"
    using scene_kinds scene_free by (rule two_body_step)
  show ?thesis
    using two_body_momentum_conserved [OF scene_kinds m z f]
    by (simp add: t s scene_free scene_ballA' scene_ballB')
qed

subsection \<open>C6: equal masses, opposite velocities\<close>

text \<open>
  C6. Two bodies of the same non-zero mass that enter \<^verbatim>\<open>processCollision\<close> with velocities
  \<open>v\<close> and \<open>- v\<close> leave it with \<open>- v\<close> and \<open>v\<close>: the velocities are exchanged, whatever the
  positions and the position correction. (With mass zero the source divides by zero.)
\<close>

theorem processCollision_equal_mass_exchange:
  "Mass one = Mass two \<Longrightarrow> Mass one \<noteq> 0 \<Longrightarrow> Velocity one = v \<Longrightarrow> Velocity two = - v \<Longrightarrow>
   Velocity (fst (processCollision one two)) = - v
   \<and> Velocity (snd (processCollision one two)) = v"
  by (cases v) (simp add: processCollision_def Let_def vec3_defs)

text \<open>The theorem at two overlapping balls of mass 3 with velocities \<open>(1, 0, 0)\<close> and
  \<open>(-1, 0, 0)\<close>.\<close>

theorem processCollision_equal_mass_exchange_witness:
  "Mass (lightBall\<lparr>Mass := 3\<rparr>) = Mass (heavyBall\<lparr>Velocity := Vec3 (- 1) 0 0\<rparr>)
   \<and> Mass (lightBall\<lparr>Mass := 3\<rparr>) \<noteq> 0
   \<and> Velocity (fst (processCollision (lightBall\<lparr>Mass := 3\<rparr>)
                      (heavyBall\<lparr>Velocity := Vec3 (- 1) 0 0\<rparr>))) = Vec3 (- 1) 0 0
   \<and> Velocity (snd (processCollision (lightBall\<lparr>Mass := 3\<rparr>)
                      (heavyBall\<lparr>Velocity := Vec3 (- 1) 0 0\<rparr>))) = Vec3 1 0 0"
proof -
  have m: "Mass (lightBall\<lparr>Mass := 3\<rparr>) = Mass (heavyBall\<lparr>Velocity := Vec3 (- 1) 0 0\<rparr>)"
    by (simp add: scene_defs)
  have nz: "Mass (lightBall\<lparr>Mass := 3\<rparr>) \<noteq> 0"
    by simp
  have v1: "Velocity (lightBall\<lparr>Mass := 3\<rparr>) = Vec3 1 0 0"
    by (simp add: scene_defs)
  have v2: "Velocity (heavyBall\<lparr>Velocity := Vec3 (- 1) 0 0\<rparr>) = - Vec3 1 0 0"
    by (simp add: uminus_vec3_def)
  show ?thesis
    using m nz processCollision_equal_mass_exchange [OF m nz v1 v2]
    by (simp add: uminus_vec3_def)
qed

subsection \<open>C7: the minimum-distance guard of gravity\<close>

text \<open>
  C7. When the squared distance of the centres is below \<open>1 + 1/1000\<close> (\<^verbatim>\<open>minDistSq\<close> plus
  \<^verbatim>\<open>EPSILON\<close>), \<^verbatim>\<open>calculateGravForce\<close> returns both bodies exactly as they were, for all
  masses: no accumulator and no other field changes.
\<close>

theorem calculateGravForce_skips_close_pair:
  "calculateDistanceSquare one two < 1 + 1 / 1000 \<Longrightarrow> calculateGravForce one two = (one, two)"
  by (simp add: calculateGravForce_def minDistSq_def EPSILON_def)

text \<open>The theorem at two balls of mass \<open>3 \<times> 10\<^sup>1\<^sup>2\<close> whose centres are one unit apart.\<close>

theorem calculateGravForce_skips_close_pair_witness:
  "calculateDistanceSquare ballA (ballB\<lparr>Position := Vec3 1 10 0\<rparr>) < 1 + 1 / 1000
   \<and> calculateGravForce ballA (ballB\<lparr>Position := Vec3 1 10 0\<rparr>)
       = (ballA, ballB\<lparr>Position := Vec3 1 10 0\<rparr>)"
proof -
  have h: "calculateDistanceSquare ballA (ballB\<lparr>Position := Vec3 1 10 0\<rparr>) < 1 + 1 / 1000"
    by (simp add: calculateDistanceSquare_def scene_defs vec3_defs)
  show ?thesis
    using h calculateGravForce_skips_close_pair [OF h] by simp
qed

subsection \<open>C8: the mass of a body is never checked\<close>

text \<open>
  C8, as stated, fails: \<^verbatim>\<open>Body\<close> is an aggregate with public fields and no constructor, and
  nothing in the engine looks at the sign of \<^verbatim>\<open>Mass\<close>. A ball whose mass was set to \<open>-2\<close>
  goes through a physics step: the step divides the force \<open>(4, 0, 0)\<close> by the mass
  (acceleration \<open>(-2, 0, 0)\<close>), integrates, and leaves the mass at \<open>-2\<close>.
\<close>

theorem negative_mass_reaches_step:
  "Mass negativeMassBall = - 2
   \<and> processFrame Physics_default [negativeMassBall]
     = [negativeMassBall\<lparr>Force := Vec3 4 0 0, vForceAccumulator := Vec3 0 0 0,
          Acceleration := Vec3 (- 2) 0 0, Velocity := Vec3 (- (1 / 30)) 0 0,
          Position := Vec3 (- (1 / 1800)) 10 0\<rparr>]"
  by (simp add: frame_defs scene_defs Physics_default_def vec3_defs)

text \<open>
  C8, amended. The mass of a default-initialised body is 1; assigning any value \<open>m\<close> to
  \<^verbatim>\<open>Mass\<close> stores \<open>m\<close> unchanged; a physics step leaves every body's mass as it was (nothing
  is rejected or clamped); and \<^verbatim>\<open>updateState\<close> sets the acceleration to the force divided
  by that mass.
\<close>

theorem mass_stored_and_used_unchecked:
  "Mass (Body_default pos) = 1
   \<and> Mass (b\<lparr>Mass := m\<rparr>) = m
   \<and> map Mass (processFrame p bs) = map Mass bs
   \<and> Acceleration (updateState p b) = vdiv (Force b) (Mass b)"
proof -
  have "map (fst \<circ> snd) (map fixedPart (processFrame p bs)) = map (fst \<circ> snd) (map fixedPart bs)"
    by (simp only: fixedPart_processFrame)
  then have "map Mass (processFrame p bs) = map Mass bs"
    by (simp add: fixedPart_def comp_def)
  then show ?thesis
    by (simp add: Body_default_def updateState_def Let_def)
qed

subsection \<open>C9: the response to a surface contact\<close>

text \<open>
  C9. For a body with \<open>position.y - radius \<le> -2 + 1/1000\<close> (the surface height plus
  \<^verbatim>\<open>EPSILON\<close>): \<^verbatim>\<open>onSurface\<close> holds, and \<^verbatim>\<open>processSurfaceCollision\<close> returns the body with
  the vertical velocity multiplied by \<open>-0.8\<close> and then set to 0 when its magnitude is below
  \<open>0.1\<close>, with \<open>position.y\<close> set to \<open>-2 + radius\<close>, and with every other component and field
  unchanged.
\<close>

theorem surface_collision_response:
  "vec_y (Position body) - Radius (geometry (sphere body)) \<le> - 2 + 1 / 1000 \<Longrightarrow>
   onSurface body
   \<and> processSurfaceCollision body =
       body\<lparr>Velocity := Vec3 (vec_x (Velocity body))
                          (if \<bar>vec_y (Velocity body) * (- (8 / 10))\<bar> < 1 / 10 then 0
                           else vec_y (Velocity body) * (- (8 / 10)))
                          (vec_z (Velocity body)),
            Position := Vec3 (vec_x (Position body)) (- 2 + Radius (geometry (sphere body)))
                          (vec_z (Position body))\<rparr>"
  by (simp add: onSurface_def processSurfaceCollision_def getRadius_def surfaceY_def EPSILON_def
      set_y_def Let_def)

text \<open>The theorem at a ball of radius 1 with its centre at height \<open>-1.5\<close>, falling with
  vertical velocity \<open>-10\<close>: it leaves with vertical velocity 8 at height \<open>-1\<close>.\<close>

theorem surface_collision_response_witness:
  "vec_y (Position sinkingBall) - Radius (geometry (sphere sinkingBall)) \<le> - 2 + 1 / 1000
   \<and> onSurface sinkingBall
   \<and> processSurfaceCollision sinkingBall
       = sinkingBall\<lparr>Velocity := Vec3 1 8 3, Position := Vec3 2 (- 1) 5\<rparr>"
proof -
  have h: "vec_y (Position sinkingBall) - Radius (geometry (sphere sinkingBall)) \<le> - 2 + 1 / 1000"
    by (simp add: scene_defs)
  have v: "Velocity sinkingBall = Vec3 1 (- 10) 3" and q: "Position sinkingBall = Vec3 2 (- 3 / 2) 5"
    and r: "Radius (geometry (sphere sinkingBall)) = 1"
    by (simp_all add: scene_defs)
  show ?thesis
    using h surface_collision_response [OF h] by (simp add: v q r)
qed

subsection \<open>C10: the termination flag\<close>

lemma fst_applyOp: "fst (applyOp op w) = fst w"
  by (cases op; cases w) (simp_all add: wait_def cleanup_def)

lemma fst_applyOps: "fst (fold applyOp ops w) = fst w"
  by (induction ops arbitrary: w) (simp_all add: fst_applyOp)

text \<open>
  C10. \<^verbatim>\<open>shouldClose\<close> is false on the engine each of the three constructors builds, and it
  is false after every sequence of \<^verbatim>\<open>processFrame\<close>, \<^verbatim>\<open>push\<close>, \<^verbatim>\<open>wait\<close> and \<^verbatim>\<open>cleanup\<close> applied to
  that engine and any list of bodies.
\<close>

theorem endSim_never_raised:
  "\<not> shouldClose (construct c) \<and> \<not> shouldClose (fst (applyOps ops (construct c, bs)))"
  by (cases c)
    (simp_all add: applyOps_def fst_applyOps shouldClose_def Physics_default_def Physics_speed_def
      Physics_timeStep_speed_def)

end
